theory Spec2Isabelle
  imports Main
begin

section \<open>Python values and errors\<close>

text \<open>
  The values that flow through the scoring pipeline of \<^verbatim>\<open>Skinne_Advisor.py\<close>: strings,
  (unbounded) integers, a missing value and lists of values. \<open>PNone\<close> stands for
  Python's \<^verbatim>\<open>None\<close> and, in a table cell, for the missing value (NaN) that pandas
  stores for an empty spreadsheet cell: the code treats both alike (\<^verbatim>\<open>dropna\<close> drops
  both, \<^verbatim>\<open>convert_t_score\<close> rejects both). Floating point numbers are not modelled.
\<close>

datatype pyval = PStr string | PInt int | PNone | PList "pyval list"

text \<open>
  Exceptions are values. \<open>ValueError\<close> and \<open>KeyError\<close> carry the text the source gives
  them.
\<close>

datatype error = ValueError string | TypeError | KeyError string | AttributeError | IndexError

section \<open>String operations of the Python library\<close>

text \<open>
  A string is a list of characters with code points below 256. \<open>py_isspace\<close> is the
  whitespace that \<^verbatim>\<open>str.strip()\<close> and \<^verbatim>\<open>int()\<close> skip: tab, line feed, vertical
  tab, form feed, carriage return, the four separators 0x1C..0x1F, the space, the
  next-line character 0x85 and the no-break space 0xA0. (Whitespace and digits with
  code points from 256 on are outside this type.)
\<close>

definition py_isspace :: "char \<Rightarrow> bool" where
  "py_isspace c =
     (c \<in> set [CHR 0x09, CHR 0x0A, CHR 0x0B, CHR 0x0C, CHR 0x0D,
                CHR 0x1C, CHR 0x1D, CHR 0x1E, CHR 0x1F, CHR 0x20, CHR 0x85, CHR 0xA0])"

text \<open>\<^verbatim>\<open>s.strip()\<close>\<close>

definition py_strip :: "string \<Rightarrow> string" where
  "py_strip s = rev (dropWhile py_isspace (rev (dropWhile py_isspace s)))"

text \<open>\<^verbatim>\<open>s.strip(chars)\<close>: leading and trailing characters of the set \<open>chars\<close> go.\<close>

definition py_strip_chars :: "string \<Rightarrow> string \<Rightarrow> string" where
  "py_strip_chars chars s =
     rev (dropWhile (\<lambda>c. c \<in> set chars) (rev (dropWhile (\<lambda>c. c \<in> set chars) s)))"

text \<open>\<^verbatim>\<open>s.replace(c, "")\<close> for a one-character \<open>c\<close>: every occurrence is removed.\<close>

definition py_remove_char :: "char \<Rightarrow> string \<Rightarrow> string" where
  "py_remove_char c s = filter (\<lambda>d. d \<noteq> c) s"

text \<open>\<^verbatim>\<open>s.startswith(p)\<close>, that is \<^verbatim>\<open>s[:len(p)] == p\<close>.\<close>

definition py_startswith :: "string \<Rightarrow> string \<Rightarrow> bool" where
  "py_startswith s p = (take (length p) s = p)"

text \<open>
  \<^verbatim>\<open>s.split(sep)\<close> for a non-empty separator: the text is cut at every occurrence of
  \<open>sep\<close>, scanning from the left; the result always has at least one piece. \<open>acc\<close>
  holds the current piece, reversed. (Python raises on an empty separator; both
  separators the program uses are literals.)
\<close>

function py_split_from :: "string \<Rightarrow> string \<Rightarrow> string \<Rightarrow> string list" where
  "py_split_from sep acc [] = [rev acc]"
| "py_split_from sep acc (c # cs) =
     (if sep \<noteq> [] \<and> take (length sep) (c # cs) = sep
      then rev acc # py_split_from sep [] (drop (length sep) (c # cs))
      else py_split_from sep (c # acc) cs)"
  by pat_completeness auto
termination
  by (relation "measure (\<lambda>(sep, acc, s). length s)") auto

definition py_split :: "string \<Rightarrow> string \<Rightarrow> string list" where
  "py_split sep s = py_split_from sep [] s"

text \<open>
  \<^verbatim>\<open>int(s)\<close> on a string, base 10: surrounding whitespace is skipped, one sign is
  allowed, then decimal digits, where single underscores may separate digits. \<open>None\<close>
  is the \<^verbatim>\<open>ValueError\<close> of \<^verbatim>\<open>int\<close>. The interpreter also raises
  \<^verbatim>\<open>ValueError\<close> when the text has more digits than \<^verbatim>\<open>sys.get_int_max_str_digits()\<close>,
  4300 unless the interpreter is configured otherwise; signs and underscores do not
  count.
\<close>

definition int_max_str_digits :: nat where
  "int_max_str_digits = 4300"

definition py_isdigit :: "char \<Rightarrow> bool" where
  "py_isdigit c = (c \<in> set ''0123456789'')"

text \<open>The value of a decimal digit: its position among the ten digits.\<close>

definition py_digit :: "char \<Rightarrow> int" where
  "py_digit c = int (length (takeWhile (\<lambda>d. d \<noteq> c) ''0123456789''))"

fun py_digits :: "int \<Rightarrow> string \<Rightarrow> int option" where
  "py_digits acc [] = Some acc"
| "py_digits acc [c] = (if py_isdigit c then Some (10 * acc + py_digit c) else None)"
| "py_digits acc (c # d # ds) =
     (if py_isdigit c then py_digits (10 * acc + py_digit c) (d # ds)
      else if c = CHR ''_'' \<and> py_isdigit d then py_digits (10 * acc + py_digit d) ds
      else None)"

definition py_unsigned :: "string \<Rightarrow> int option" where
  "py_unsigned s =
     (if int_max_str_digits < length (filter py_isdigit s) then None
      else case s of [] \<Rightarrow> None
           | c # cs \<Rightarrow> if py_isdigit c then py_digits (py_digit c) cs else None)"

definition py_int :: "string \<Rightarrow> int option" where
  "py_int s =
     (case py_strip s of [] \<Rightarrow> None
      | c # cs \<Rightarrow>
          if c = CHR ''-'' then map_option uminus (py_unsigned cs)
          else if c = CHR ''+'' then py_unsigned cs
          else py_unsigned (c # cs))"

section \<open>The score encoder\<close>

text \<open>
  \<^verbatim>\<open>safe_int_conversion\<close> inside \<^verbatim>\<open>convert_t_score\<close>:
  \<^verbatim>\<open>try: return int(value.strip()) except ValueError: return -1\<close>.
\<close>

definition t_safe_int_conversion :: "string \<Rightarrow> int" where
  "t_safe_int_conversion v = (case py_int (py_strip v) of Some n \<Rightarrow> n | None \<Rightarrow> - 1)"

text \<open>
  \<^verbatim>\<open>convert_t_score(t_score_str)\<close>. The argument is a table cell, so any value. A
  value that is falsy or not a string raises; otherwise the brackets and apostrophes go,
  the text is cut at \<^verbatim>\<open>", "\<close>, the first piece stays a string and every other piece
  goes through \<^verbatim>\<open>safe_int_conversion\<close>. The second check of the source
  (\<^verbatim>\<open>len(elements) < 1\<close>) is kept although \<^verbatim>\<open>split\<close> never returns an empty list.
\<close>

definition convert_t_score :: "pyval \<Rightarrow> error + pyval" where
  "convert_t_score t_score_str =
     (case t_score_str of
        PStr s \<Rightarrow>
          if s = [] then
            Inl (ValueError ''Input must be a non-empty string representing a T-Score.'')
          else
            (let elements = py_split '', '' (py_remove_char (CHR 0x27) (py_strip_chars ''[]'' s))
             in case elements of
                  [] \<Rightarrow> Inl (ValueError
                    ''Input string is not in the expected format. Must contain at least one element.'')
                | e # es \<Rightarrow> Inr (PList (PStr e # map (\<lambda>i. PInt (t_safe_int_conversion i)) es)))
      | _ \<Rightarrow> Inl (ValueError ''Input must be a non-empty string representing a T-Score.''))"

section \<open>The distance\<close>

text \<open>
  \<^verbatim>\<open>safe_int_conversion\<close> inside \<^verbatim>\<open>calculate_d_score\<close>:
  \<^verbatim>\<open>try: return int(value) except ValueError: return -1\<close>. \<^verbatim>\<open>int\<close> of an integer
  is the integer; of a string it parses; of \<^verbatim>\<open>None\<close> or a list it raises
  \<^verbatim>\<open>TypeError\<close>, which the handler does not catch.
\<close>

definition d_safe_int_conversion :: "pyval \<Rightarrow> error + int" where
  "d_safe_int_conversion v =
     (case v of
        PInt n \<Rightarrow> Inr n
      | PStr s \<Rightarrow> Inr (case py_int s of Some n \<Rightarrow> n | None \<Rightarrow> - 1)
      | PNone \<Rightarrow> Inl TypeError
      | PList xs \<Rightarrow> Inl TypeError)"

text \<open>
  \<^verbatim>\<open>sum(abs(p - safe_int_conversion(t)) for p, t in zip(...))\<close>: the terms are computed
  from the left; the conversion of \<open>t\<close> runs before the subtraction, which raises
  \<^verbatim>\<open>TypeError\<close> unless \<open>p\<close> is an integer.
\<close>

fun sum_abs_diff :: "(pyval \<times> pyval) list \<Rightarrow> error + int" where
  "sum_abs_diff [] = Inr 0"
| "sum_abs_diff ((p, t) # rest) =
     (case d_safe_int_conversion t of
        Inl e \<Rightarrow> Inl e
      | Inr c \<Rightarrow>
          (case p of
             PInt a \<Rightarrow>
               (case sum_abs_diff rest of Inl e \<Rightarrow> Inl e | Inr s \<Rightarrow> Inr (\<bar>a - c\<bar> + s))
           | _ \<Rightarrow> Inl TypeError))"

text \<open>\<^verbatim>\<open>calculate_d_score(p_score, t_score)\<close>, with its three checks in the source's order.\<close>

definition calculate_d_score :: "pyval \<Rightarrow> pyval \<Rightarrow> error + int" where
  "calculate_d_score p_score t_score =
     (case (p_score, t_score) of
        (PList p, PList t) \<Rightarrow>
          if length p \<noteq> length t then
            Inl (ValueError ''p_score and t_score must have the same length.'')
          else if length p \<le> 1 \<or> length t \<le> 1 then
            Inl (ValueError
              ''p_score and t_score must contain at least one scoring element beyond the first identifier.'')
          else sum_abs_diff (zip (tl p) (tl t))
      | _ \<Rightarrow> Inl (ValueError ''Both p_score and t_score must be lists.''))"

section \<open>Tables\<close>

text \<open>
  A pandas \<^verbatim>\<open>DataFrame\<close>: the column labels and the rows in their order. A row gives
  the cell of each column; what it gives outside \<open>columns\<close> is never read. Row labels
  (the index) are not modelled: the program only renumbers them for display.
\<close>

type_synonym row = "string \<Rightarrow> pyval"

record dataframe =
  columns :: "string list"
  rows :: "row list"

text \<open>\<^verbatim>\<open>data.empty\<close>: no rows or no columns.\<close>

definition df_empty :: "dataframe \<Rightarrow> bool" where
  "df_empty df = (rows df = [] \<or> columns df = [])"

definition is_str :: "pyval \<Rightarrow> bool" where
  "is_str v = (case v of PStr s \<Rightarrow> True | _ \<Rightarrow> False)"

definition is_list :: "pyval \<Rightarrow> bool" where
  "is_list v = (case v of PList xs \<Rightarrow> True | _ \<Rightarrow> False)"

definition is_int :: "pyval \<Rightarrow> bool" where
  "is_int v = (case v of PInt n \<Rightarrow> True | _ \<Rightarrow> False)"

definition int_of :: "pyval \<Rightarrow> int" where
  "int_of v = (case v of PInt n \<Rightarrow> n | _ \<Rightarrow> 0)"

text \<open>Python's truth value of a value (\<^verbatim>\<open>if x\<close>, \<^verbatim>\<open>not x\<close>).\<close>

definition truthy :: "pyval \<Rightarrow> bool" where
  "truthy v = (case v of PStr s \<Rightarrow> s \<noteq> [] | PInt n \<Rightarrow> n \<noteq> 0 | PNone \<Rightarrow> False | PList xs \<Rightarrow> xs \<noteq> [])"

text \<open>\<^verbatim>\<open>data.dropna(subset=[col])\<close>: rows whose cell in \<open>col\<close> is missing go.\<close>

definition dropna :: "string \<Rightarrow> dataframe \<Rightarrow> dataframe" where
  "dropna col df = df\<lparr>rows := filter (\<lambda>r. r col \<noteq> PNone) (rows df)\<rparr>"

text \<open>
  \<^verbatim>\<open>data[data[col].str.startswith(p)]\<close>: the rows whose cell in \<open>col\<close> starts with
  \<open>p\<close>, in their order. What pandas does depends on the dtype of the column, which
  \<^verbatim>\<open>pd.read_excel\<close> infers from the cells and \<^verbatim>\<open>dropna\<close> keeps:
  \<^item> a column without any text (only numbers and empty cells, or only empty cells) has a
    numeric dtype, and the \<^verbatim>\<open>.str\<close> accessor raises \<^verbatim>\<open>AttributeError\<close>; so does a
    column of Python objects that are all integers;
  \<^item> in a column of Python objects, \<^verbatim>\<open>str.startswith\<close> gives a missing value for every
    cell that is not a string, and selecting with such a mask raises \<^verbatim>\<open>ValueError\<close>;
  \<^item> otherwise every cell is a string and the mask selects.
\<close>

definition select_startswith :: "string \<Rightarrow> string \<Rightarrow> dataframe \<Rightarrow> error + dataframe" where
  "select_startswith col p df =
     (if \<not> list_ex (\<lambda>r. is_str (r col) \<or> is_list (r col)) (rows df) then Inl AttributeError
      else if list_ex (\<lambda>r. \<not> is_str (r col)) (rows df) then
        Inl (ValueError ''Cannot mask with non-boolean array containing NA / NaN values'')
      else Inr (df\<lparr>rows :=
        filter (\<lambda>r. case r col of PStr c \<Rightarrow> py_startswith c p | _ \<Rightarrow> False) (rows df)\<rparr>))"

text \<open>
  \<^verbatim>\<open>df.apply\<close> along the rows, the result stored in column \<open>col\<close>: \<open>f\<close> runs on the rows
  from the first to the last, and the first exception ends the run. With
  \<open>f = (\<lambda>r. g (r col))\<close> this is \<^verbatim>\<open>data[col] = data[col].apply(g)\<close>.
\<close>

fun apply_rows :: "(row \<Rightarrow> error + pyval) \<Rightarrow> string \<Rightarrow> row list \<Rightarrow> error + row list" where
  "apply_rows f col [] = Inr []"
| "apply_rows f col (r # rs) =
     (case f r of
        Inl e \<Rightarrow> Inl e
      | Inr v \<Rightarrow>
          (case apply_rows f col rs of
             Inl e \<Rightarrow> Inl e
           | Inr rs' \<Rightarrow> Inr (r(col := v) # rs')))"

definition add_column :: "string \<Rightarrow> string list \<Rightarrow> string list" where
  "add_column col cols = (if col \<in> set cols then cols else cols @ [col])"

text \<open>
  The dtype pandas gives a column of Python integers when the column is assigned: 64-bit
  signed when every value fits, 64-bit unsigned when none is negative and every value
  fits, else \<^verbatim>\<open>object\<close>. \<open>column_numeric\<close> tells whether the column \<open>col\<close> of a table,
  holding integers, gets one of the two numeric dtypes.
\<close>

definition numeric_ints :: "int list \<Rightarrow> bool" where
  "numeric_ints vs =
     (list_all (\<lambda>v. - (2 ^ 63) \<le> v \<and> v < 2 ^ 63) vs \<or> list_all (\<lambda>v. 0 \<le> v \<and> v < 2 ^ 64) vs)"

definition column_numeric :: "string \<Rightarrow> dataframe \<Rightarrow> bool" where
  "column_numeric col df =
     (list_all (\<lambda>r. is_int (r col)) (rows df) \<and> numeric_ints (map (\<lambda>r. int_of (r col)) (rows df)))"

text \<open>
  \<^verbatim>\<open>df.nsmallest(n, col)\<close> with the default \<^verbatim>\<open>keep='first'\<close>: the first \<open>n\<close> rows in
  ascending order of \<open>col\<close>, rows with equal values in their order of occurrence. pandas
  raises \<^verbatim>\<open>TypeError\<close> when the dtype of the column is not numeric. A table keeps the
  dtype of a column when rows are taken out of it, so \<open>numeric\<close> is the dtype the column
  got when it was assigned, which the caller knows.
\<close>

definition nsmallest :: "nat \<Rightarrow> string \<Rightarrow> bool \<Rightarrow> dataframe \<Rightarrow> error + dataframe" where
  "nsmallest n col numeric df =
     (if col \<notin> set (columns df) then Inl (KeyError col)
      else if \<not> numeric then Inl TypeError
      else Inr (df\<lparr>rows := take n (sort_key (\<lambda>r. int_of (r col)) (rows df))\<rparr>))"

text \<open>\<^verbatim>\<open>df.rename(columns=m)\<close>: labels that are keys of \<open>m\<close> are replaced.\<close>

definition rename_label :: "(string \<times> string) list \<Rightarrow> string \<Rightarrow> string" where
  "rename_label m c = (case map_of m c of Some c' \<Rightarrow> c' | None \<Rightarrow> c)"

definition rename_columns :: "(string \<times> string) list \<Rightarrow> dataframe \<Rightarrow> dataframe" where
  "rename_columns m df =
     \<lparr>columns = map (rename_label m) (columns df),
      rows = map (\<lambda>r c'. case find (\<lambda>c. rename_label m c = c') (columns df) of
                            Some c \<Rightarrow> r c | None \<Rightarrow> PNone) (rows df)\<rparr>"

text \<open>\<^verbatim>\<open>df[cols]\<close> for a list of labels: \<^verbatim>\<open>KeyError\<close> when one of them is no column.\<close>

definition select_columns :: "string list \<Rightarrow> dataframe \<Rightarrow> error + dataframe" where
  "select_columns cols df =
     (case find (\<lambda>c. c \<notin> set (columns df)) cols of
        Some c \<Rightarrow> Inl (KeyError c)
      | None \<Rightarrow> Inr \<lparr>columns = cols,
                     rows = map (\<lambda>r c. if c \<in> set cols then r c else PNone) (rows df)\<rparr>)"

section \<open>The matcher\<close>

text \<open>
  \<^verbatim>\<open>filter_treatments(data, concern_code)\<close>: three checks, then the rows with a missing
  concern code are dropped, the rows whose concern code starts with the target are
  kept, and an empty result raises.
\<close>

definition filter_treatments :: "dataframe \<Rightarrow> pyval \<Rightarrow> error + dataframe" where
  "filter_treatments data concern_code =
     (if df_empty data then
        Inl (ValueError ''Input data must be a non-empty Pandas DataFrame.'')
      else if ''Concern Code'' \<notin> set (columns data) then
        Inl (ValueError (''Data does not contain the required '' @ [CHR 0x27] @ ''Concern Code''
               @ [CHR 0x27] @ '' column.''))
      else
        (case concern_code of
           PStr code \<Rightarrow>
             if py_strip code = [] then
               Inl (ValueError ''Concern Code must be a non-empty string.'')
             else
               (case select_startswith ''Concern Code'' code (dropna ''Concern Code'' data) of
                  Inl e \<Rightarrow> Inl e
                | Inr filtered_data \<Rightarrow>
                    if df_empty filtered_data then
                      Inl (ValueError (''No treatments found for Concern Code: '' @ code))
                    else Inr filtered_data)
         | _ \<Rightarrow> Inl (ValueError ''Concern Code must be a non-empty string.'')))"

text \<open>
  Lines 251 and 252 of \<^verbatim>\<open>recommend_treatments\<close>: the T-Score of every row of the loaded
  table is converted, then the D-Score of every row is computed and stored.
\<close>

definition score_catalog :: "pyval list \<Rightarrow> dataframe \<Rightarrow> error + dataframe" where
  "score_catalog p_score data =
     (if ''T-Score'' \<notin> set (columns data) then Inl (KeyError ''T-Score'')
      else
        (case apply_rows (\<lambda>r. convert_t_score (r ''T-Score'')) ''T-Score'' (rows data) of
           Inl e \<Rightarrow> Inl e
         | Inr rows1 \<Rightarrow>
             (case apply_rows
                     (\<lambda>r. case calculate_d_score (PList p_score) (r ''T-Score'') of
                             Inl e \<Rightarrow> Inl e | Inr d \<Rightarrow> Inr (PInt d))
                     ''D-Score'' rows1 of
                Inl e \<Rightarrow> Inl e
              | Inr rows2 \<Rightarrow>
                  Inr \<lparr>columns = add_column ''D-Score'' (columns data), rows = rows2\<rparr>)))"

text \<open>
  Lines 251 to 260: scoring, filtering, selection. \<open>Inr None\<close> is the branch of line 255
  (an empty table returned by \<^verbatim>\<open>filter_treatments\<close>). The D-Score column got its dtype
  at line 252, from the D-Scores of all rows.
\<close>

definition top_recommendations :: "pyval list \<Rightarrow> pyval \<Rightarrow> dataframe \<Rightarrow> error + dataframe option" where
  "top_recommendations p_score concern_code data =
     (case score_catalog p_score data of
        Inl e \<Rightarrow> Inl e
      | Inr scored \<Rightarrow>
          (case filter_treatments scored concern_code of
             Inl e \<Rightarrow> Inl e
           | Inr filtered_data \<Rightarrow>
               if df_empty filtered_data then Inr None
               else (case nsmallest 5 ''D-Score'' (column_numeric ''D-Score'' scored)
                            filtered_data of
                       Inl e \<Rightarrow> Inl e
                     | Inr chosen \<Rightarrow> Inr (Some chosen))))"

text \<open>
  The matcher as the specification words it: the rows are filtered by concern code
  first, a D-Score is computed for each remaining row only, and the five rows of lowest
  distance are selected.
\<close>

definition matcher_spec :: "pyval list \<Rightarrow> pyval \<Rightarrow> dataframe \<Rightarrow> error + dataframe option" where
  "matcher_spec p_score concern_code data =
     (case filter_treatments data concern_code of
        Inl e \<Rightarrow> Inl e
      | Inr filtered_data \<Rightarrow>
          (case score_catalog p_score filtered_data of
             Inl e \<Rightarrow> Inl e
           | Inr scored \<Rightarrow>
               (case nsmallest 5 ''D-Score'' (column_numeric ''D-Score'' scored) scored of
                  Inl e \<Rightarrow> Inl e
                | Inr chosen \<Rightarrow> Inr (Some chosen))))"

section \<open>The session and the page\<close>

text \<open>
  What a run writes on the page, in order. A formatted text is kept as its pieces: the
  literal parts and the values put between them.
\<close>

datatype fpart = Lit string | Val pyval

datatype ui_event =
    StError "fpart list"
  | StSuccess "fpart list"
  | StWrite "fpart list"
  | StTable dataframe
  | StDownloadButton "pyval list list"

text \<open>
  \<^verbatim>\<open>st.session_state\<close> with the three entries the program keeps, and the page of the
  current run. An entry that is absent is \<open>None\<close> (for \<open>responses\<close>: the empty map, as
  \<^verbatim>\<open>st.session_state.get("responses", {})\<close> reads it).
\<close>

record session =
  responses :: "string \<rightharpoonup> pyval"
  voucher_code :: "string option"
  final_table :: "dataframe option"
  ui :: "ui_event list"

definition st_show :: "ui_event \<Rightarrow> session \<Rightarrow> session" where
  "st_show ev s = s\<lparr>ui := ui s @ [ev]\<rparr>"

text \<open>
  \<^verbatim>\<open>load_data(sheet_name)\<close>. The spreadsheet is outside the program: \<open>read_excel\<close> gives
  the table of a sheet, or the text of the exception \<^verbatim>\<open>pd.read_excel\<close> raised, which
  \<^verbatim>\<open>load_data\<close> reports before it returns an empty table. (Each call gets its own
  copy of the table, so later assignments to it stay local.)
\<close>

definition load_data :: "(string \<Rightarrow> string + dataframe) \<Rightarrow> string \<Rightarrow> session \<Rightarrow> dataframe \<times> session" where
  "load_data read_excel sheet_name s =
     (case read_excel sheet_name of
        Inr df \<Rightarrow> (df, s)
      | Inl e \<Rightarrow>
          (\<lparr>columns = [], rows = []\<rparr>,
           st_show (StError [Lit (''Error loading data from sheet '' @ [CHR 0x27]),
                             Val (PStr sheet_name), Lit ([CHR 0x27] @ '': ''), Val (PStr e)]) s))"

text \<open>The \<^verbatim>\<open>rename\<close> dictionary and the display columns of \<^verbatim>\<open>recommend_treatments\<close>.\<close>

definition display_names :: "(string \<times> string) list" where
  "display_names =
     [(''Treatment Brand/Name'', ''Treatment Name''),
      (''Budget Level:\<newline>(Price Per Session)\<newline>\<newline>1: SGD 20 - 99\<newline>2: SGD 100 - 199\<newline>3: SGD 200 - 299\<newline>4: SGD 300 - 399\<newline>5: SGD 400 - 499\<newline>6: SGD 500 - 699\<newline>7: SGD 700 - 999\<newline>8: SGD 1000 - 1499\<newline>9: SGD 1500 - 3000\<newline>10: Above SGD 3000'',
       ''Budget Level (SGD)''),
      (''Duration of Results:\<newline>\<newline>1: 12 months\<newline>2: 6 months\<newline>'',
       ''Duration of Results (months)''),
      (''Number of Sessions Required:\<newline>\<newline>1: 1 session\<newline>2: 2 sessions\<newline>3: 4 sessions\<newline>4: 6 sessions'',
       ''Sessions Required''),
      (''Level of Discomfort:\<newline>\<newline>1: Low\<newline>2: Low-moderate\<newline>3: Moderate\<newline>4: Moderate-high\<newline>5: High'',
       ''Discomfort Level''),
      (''Amount of Downtime:\<newline>\<newline>1: None\<newline>2: 1 day\<newline>3: 3 days\<newline>4: 7 days '',
       ''Downtime''),
      (''Prescribed Intervals between Sessions:\<newline>\<newline>1: 1 day\<newline>2: 1 week\<newline>3: 2 weeks\<newline>4: 1 month\<newline>5: 3 months\<newline>6: 6 months'',
       ''Interval Between Sessions''),
      (''Delivery Mode'', ''Delivery Mode'')]"

definition columns_to_display :: "string list" where
  "columns_to_display =
     [''Treatment Name'', ''Budget Level (SGD)'', ''Duration of Results (months)'',
      ''Sessions Required'', ''Discomfort Level'', ''Delivery Mode'', ''Downtime'',
      ''Interval Between Sessions'']"

text \<open>
  \<^verbatim>\<open>recommend_treatments(p_score)\<close>. The result is the exception that left the function,
  if one did, and the session. \<^verbatim>\<open>st.error\<close> followed by \<^verbatim>\<open>return\<close> is a normal
  return. An exception of lines 251 to 284 is caught nowhere in the program.
\<close>

definition recommend_treatments ::
  "(string \<Rightarrow> string + dataframe) \<Rightarrow> pyval list \<Rightarrow> session \<Rightarrow> error option \<times> session" where
  "recommend_treatments read_excel p_score s =
     (let injectable_preference = responses s ''Delivery Mode'' in
      if injectable_preference \<noteq> Some (PInt 1) \<and> injectable_preference \<noteq> Some (PInt 2) then
        (None, st_show (StError [Lit ''Invalid selection for injectable preference.'']) s)
      else
        (let sheet_name =
               (if injectable_preference = Some (PInt 1) then ''Non-injectable''
                else ''All treatments'');
             (data, s1) = load_data read_excel sheet_name s
         in
           if df_empty data then
             (None, st_show (StError [Lit (''Unable to load data from the '' @ [CHR 0x27]),
                                      Val (PStr sheet_name), Lit ([CHR 0x27] @ '' sheet.'')]) s1)
           else
             (case p_score of
                [] \<Rightarrow> (Some IndexError, s1)
              | concern_code # scores \<Rightarrow>
                  if \<not> truthy concern_code then
                    (None, st_show (StError
                       [Lit ''Invalid concern code extracted. Please check your responses.'']) s1)
                  else
                    (case top_recommendations p_score concern_code data of
                       Inl e \<Rightarrow> (Some e, s1)
                     | Inr None \<Rightarrow>
                         (None, st_show (StError
                            [Lit (''No treatments found for the Concern Code '' @ [CHR 0x27]),
                             Val concern_code, Lit ([CHR 0x27] @ ''.'')]) s1)
                     | Inr (Some chosen) \<Rightarrow>
                         (case select_columns columns_to_display
                                 (rename_columns display_names chosen) of
                            Inl e \<Rightarrow> (Some e, s1)
                          | Inr table \<Rightarrow>
                              (let s2 = s1\<lparr>final_table := Some table\<rparr> in
                               if \<not> df_empty table then
                                 (None, st_show (StTable table)
                                    (st_show (StWrite [Lit ''### Top 5 Recommended Treatments'']) s2))
                               else
                                 (None, st_show (StError
                                    [Lit ''No matching treatments found after filtering and scoring.''])
                                    s2)))))))"

section \<open>The survey answers\<close>

text \<open>
  \<^verbatim>\<open>extract_concern_code(specific_interest)\<close>: the second piece of the text cut at
  spaces, or \<^verbatim>\<open>None\<close>. A truthy value that is not a string has no \<^verbatim>\<open>split\<close>.
\<close>

definition extract_concern_code :: "pyval \<Rightarrow> error + string option" where
  "extract_concern_code specific_interest =
     (if truthy specific_interest then
        (case specific_interest of
           PStr s \<Rightarrow>
             (case py_split '' '' s of
                p0 # p1 # ps \<Rightarrow> Inr (Some p1)
              | _ \<Rightarrow> Inr None)
         | _ \<Rightarrow> Inl AttributeError)
      else Inr None)"

text \<open>
  A question is the dictionary the question file gives: a prompt under the key
  \<^verbatim>\<open>"question"\<close> and the options. \<open>answers\<close> is the comprehension
  \<^verbatim>\<open>[responses.get(q["question"], 1) for q in questions[1:]]\<close>: a question without the
  key raises \<^verbatim>\<open>KeyError\<close>, a prompt that is a list cannot be a dictionary key, and a
  prompt that is no string is no key of \<open>responses\<close>.
\<close>

type_synonym question = "string \<rightharpoonup> pyval"

fun answers :: "(string \<rightharpoonup> pyval) \<Rightarrow> question list \<Rightarrow> error + pyval list" where
  "answers rs [] = Inr []"
| "answers rs (q # qs) =
     (case q ''question'' of
        None \<Rightarrow> Inl (KeyError ''question'')
      | Some (PList xs) \<Rightarrow> Inl TypeError
      | Some k \<Rightarrow>
          (case answers rs qs of
             Inl e \<Rightarrow> Inl e
           | Inr vs \<Rightarrow>
               Inr ((case k of
                       PStr key \<Rightarrow> (case rs key of Some v \<Rightarrow> v | None \<Rightarrow> PInt 1)
                     | _ \<Rightarrow> PInt 1) # vs)))"

text \<open>\<^verbatim>\<open>generate_voucher_code()\<close>: the first 8 characters of a random UUID's text, which is an input here.\<close>

definition generate_voucher_code :: "string \<Rightarrow> string" where
  "generate_voucher_code uuid = take 8 uuid"

text \<open>
  \<^verbatim>\<open>display_p_score()\<close>. \<open>questions\<close> is the list loaded from the question file. Only
  \<^verbatim>\<open>KeyError\<close> is caught while the scores are built; an exception of
  \<^verbatim>\<open>recommend_treatments\<close> leaves the function.
\<close>

definition display_p_score ::
  "question list \<Rightarrow> (string \<Rightarrow> string + dataframe) \<Rightarrow> string \<Rightarrow> session \<Rightarrow> error option \<times> session" where
  "display_p_score questions read_excel uuid s =
     (if questions = [] then
        (None, st_show (StError [Lit ''Questions data is missing or improperly formatted.'']) s)
      else
        (case extract_concern_code
                (case responses s ''Specific Interest'' of Some v \<Rightarrow> v | None \<Rightarrow> PStr []) of
           Inl e \<Rightarrow> (Some e, s)
         | Inr specific_interest_code \<Rightarrow>
             if specific_interest_code = None \<or> specific_interest_code = Some [] then
               (None, st_show (StError [Lit
                  ''Specific Interest Code is invalid or missing. Please ensure you have completed the survey.''])
                  s)
             else
               (case answers (responses s) (tl questions) of
                  Inl (KeyError k) \<Rightarrow>
                    (None, st_show (StError [Lit ''Missing question key: '', Val (PStr k)]) s)
                | Inl e \<Rightarrow> (Some e, s)
                | Inr vs \<Rightarrow>
                    (let scores = PStr (the specific_interest_code) # vs in
                     if length scores \<noteq> length questions then
                       (None, st_show (StError [Lit
                          ''Incomplete data. Please answer all the questions before submitting.'']) s)
                     else
                       (case recommend_treatments read_excel scores s of
                          (Some e, s1) \<Rightarrow> (Some e, s1)
                        | (None, s1) \<Rightarrow>
                            (let voucher = generate_voucher_code uuid;
                                 s2 = s1\<lparr>voucher_code := Some voucher\<rparr>
                             in (None, st_show (StSuccess
                                   [Lit ''Thank you for completing the survey! Your unique voucher code is: **'',
                                    Val (PStr voucher), Lit ''**'']) s2)))))))"

section \<open>The export\<close>



section \<open>The scored table, in closed form\<close>

text \<open>
  Notions used to state what \<open>score_catalog\<close> returns: the D-Score cell of a row, the
  row after both steps, when both steps succeed on it, and the table of such rows.
\<close>

definition d_score_cell :: "pyval list \<Rightarrow> row \<Rightarrow> error + pyval" where
  "d_score_cell p r = (case calculate_d_score (PList p) (r ''T-Score'') of
                         Inl e \<Rightarrow> Inl e | Inr d \<Rightarrow> Inr (PInt d))"

definition scored_of :: "pyval list \<Rightarrow> row \<Rightarrow> row" where
  "scored_of p r =
     (let r1 = r(''T-Score'' := projr (convert_t_score (r ''T-Score'')))
      in r1(''D-Score'' := projr (d_score_cell p r1)))"

definition scorable :: "pyval list \<Rightarrow> row \<Rightarrow> bool" where
  "scorable p r =
     (\<not> isl (convert_t_score (r ''T-Score'')) \<and>
      \<not> isl (d_score_cell p (r(''T-Score'' := projr (convert_t_score (r ''T-Score''))))))"

definition scored_frame :: "pyval list \<Rightarrow> dataframe \<Rightarrow> dataframe" where
  "scored_frame p d =
     \<lparr>columns = add_column ''D-Score'' (columns d), rows = map (scored_of p) (rows d)\<rparr>"

section \<open>Example catalogues\<close>

text \<open>
  Rows for the examples: a row with a name, a concern code and a T-Score text, and a
  row whose concern code is missing.
\<close>

definition coded :: "string \<Rightarrow> string \<Rightarrow> string \<Rightarrow> row" where
  "coded name code t =
     (\<lambda>c. if c = ''Treatment Brand/Name'' then PStr name
          else if c = ''Concern Code'' then PStr code
          else if c = ''T-Score'' then PStr t
          else PNone)"

definition uncoded :: "string \<Rightarrow> string \<Rightarrow> row" where
  "uncoded name t =
     (\<lambda>c. if c = ''Treatment Brand/Name'' then PStr name
          else if c = ''T-Score'' then PStr t
          else PNone)"

definition catalog_columns :: "string list" where
  "catalog_columns = [''Treatment Brand/Name'', ''Concern Code'', ''T-Score'']"

definition prefix_catalog :: dataframe where
  "prefix_catalog =
     \<lparr>columns = catalog_columns,
      rows = [coded ''t1'' ''A'' ''[A, 1]'', coded ''t2'' ''B1'' ''[B1, 1]'',
              coded ''t3'' ''A1'' ''[A1, 2]'', uncoded ''t4'' ''[A1, 3]'',
              coded ''t5'' ''A23'' ''[A23, 1]'']\<rparr>"

definition blank_catalog :: dataframe where
  "blank_catalog = \<lparr>columns = catalog_columns, rows = [coded ''t1'' '' A1'' ''[ A1, 1]'']\<rparr>"

text \<open>
  A question file of six questions and the session of a user who answered the second
  and the sixth (the sixth answer is also the delivery mode).
\<close>

definition survey_questions :: "question list" where
  "survey_questions =
     [[''question'' \<mapsto> PStr ''What is your primary concern?'',
       ''options'' \<mapsto> PList [PStr ''Acne'', PStr ''Pigmentation'', PStr ''Other'']],
      [''question'' \<mapsto> PStr ''What is your budget?'',
       ''options'' \<mapsto> PList [PStr ''Low'', PStr ''Medium'', PStr ''High'']],
      [''question'' \<mapsto> PStr ''How long should results last?'',
       ''options'' \<mapsto> PList [PStr ''12 months'', PStr ''6 months'']],
      [''question'' \<mapsto> PStr ''How many sessions do you accept?'',
       ''options'' \<mapsto> PList [PStr ''One'', PStr ''Several'']],
      [''question'' \<mapsto> PStr ''How much discomfort do you accept?'',
       ''options'' \<mapsto> PList [PStr ''Low'', PStr ''High'']],
      [''question'' \<mapsto> PStr ''Are you open to injectables?'',
       ''options'' \<mapsto> PList [PStr ''Yes'', PStr ''No'']]]"

definition survey_session :: session where
  "survey_session =
     \<lparr>responses = [''Primary Concern'' \<mapsto> PStr ''Acne'',
                   ''Specific Interest'' \<mapsto> PStr ''1) A1 Acne scars'',
                   ''What is your budget?'' \<mapsto> PInt 3,
                   ''Are you open to injectables?'' \<mapsto> PInt 1,
                   ''Delivery Mode'' \<mapsto> PInt 1],
      voucher_code = None, final_table = None, ui = []\<rparr>"



definition broken_catalog :: dataframe where
  "broken_catalog =
     \<lparr>columns = catalog_columns,
      rows = [coded ''t1'' ''A1'' ''['A1', 2, 1, 1, 1, 1]'', coded ''t2'' ''B1'' ''['B1', 3]'']\<rparr>"

text \<open>A sheet in which the concern code of every row is missing.\<close>

definition uncoded_catalog :: dataframe where
  "uncoded_catalog =
     \<lparr>columns = catalog_columns,
      rows = [uncoded ''t1'' ''['A1', 2, 1, 1, 1, 1]'', uncoded ''t2'' ''['B1', 3, 1, 1, 1, 1]'']\<rparr>"



definition clinic_p_score :: "pyval list" where
  "clinic_p_score = [PStr ''A'', PInt 3, PInt 1, PInt 1, PInt 1, PInt 1]"

section \<open>Properties of the distance\<close>

lemma int_of_PInt: "int_of (PInt a) = a"
  by (simp add: int_of_def)

lemma d_safe_int_conversion_int: "is_int t \<Longrightarrow> d_safe_int_conversion t = Inr (int_of t)"
  by (cases t) (simp_all add: is_int_def int_of_def d_safe_int_conversion_def)

lemma sum_abs_diff_ints:
  "length ps = length ts \<Longrightarrow> list_all is_int ps \<Longrightarrow> list_all is_int ts \<Longrightarrow>
   sum_abs_diff (zip ps ts) = Inr (\<Sum>i<length ps. \<bar>int_of (ps ! i) - int_of (ts ! i)\<bar>)"
proof (induction ps ts rule: list_induct2)
  case Nil
  then show ?case by simp
next
  case (Cons p ps t ts)
  from Cons.prems obtain a where a: "p = PInt a"
    by (cases p) (simp_all add: is_int_def)
  from Cons.prems have t: "d_safe_int_conversion t = Inr (int_of t)"
    by (simp add: d_safe_int_conversion_int)
  from Cons have rest: "sum_abs_diff (zip ps ts) = Inr (\<Sum>i<length ps. \<bar>int_of (ps ! i) - int_of (ts ! i)\<bar>)"
    by simp
  show ?case
    by (simp add: a t rest int_of_PInt sum.lessThan_Suc_shift del: sum.lessThan_Suc)
qed

lemma calculate_d_score_ints:
  assumes "length p = length t" "2 \<le> length p"
    and "list_all is_int (tl p)" "list_all is_int (tl t)"
  shows "calculate_d_score (PList p) (PList t) =
         Inr (\<Sum>i = 1..<length p. \<bar>int_of (p ! i) - int_of (t ! i)\<bar>)"
proof -
  have len: "length (tl p) = length (tl t)" using assms(1) by simp
  have "sum_abs_diff (zip (tl p) (tl t)) =
        Inr (\<Sum>i<length (tl p). \<bar>int_of (tl p ! i) - int_of (tl t ! i)\<bar>)"
    by (rule sum_abs_diff_ints [OF len assms(3) assms(4)])
  also have "(\<Sum>i<length (tl p). \<bar>int_of (tl p ! i) - int_of (tl t ! i)\<bar>) =
        (\<Sum>i<length p - 1. \<bar>int_of (p ! Suc i) - int_of (t ! Suc i)\<bar>)"
    using assms(1) by (intro sum.cong) (simp_all add: nth_tl)
  also have "\<dots> = (\<Sum>i = 1..<length p. \<bar>int_of (p ! i) - int_of (t ! i)\<bar>)"
    by (rule sum.reindex_bij_witness [where i = "\<lambda>i. i - 1" and j = Suc]) auto
  finally show ?thesis
    using assms(1,2) by (simp add: calculate_d_score_def)
qed

lemma sum_abs_diff_zero:
  "length ps = length ts \<Longrightarrow> list_all is_int ps \<Longrightarrow> list_all is_int ts \<Longrightarrow>
   \<exists>d. sum_abs_diff (zip ps ts) = Inr d \<and> 0 \<le> d \<and> (d = 0 \<longleftrightarrow> ps = ts)"
proof (induction ps ts rule: list_induct2)
  case Nil
  then show ?case by simp
next
  case (Cons p ps t ts)
  from Cons.prems obtain a where a: "p = PInt a"
    by (cases p) (simp_all add: is_int_def)
  from Cons.prems obtain b where b: "t = PInt b"
    by (cases t) (simp_all add: is_int_def)
  from Cons obtain d where d: "sum_abs_diff (zip ps ts) = Inr d" "0 \<le> d" "d = 0 \<longleftrightarrow> ps = ts"
    by auto
  have "\<bar>a - b\<bar> + d = 0 \<longleftrightarrow> a = b \<and> d = 0" using d(2) by arith
  with d show ?case
    by (simp add: a b d_safe_int_conversion_def)
qed


text \<open>
  Claim C1. For P-Score and T-Score lists of equal length at least 2 whose elements after
  the first are integers, \<open>calculate_d_score\<close> returns the sum, over the positions after
  the first, of the absolute differences of the corresponding elements; the
  identifier at position 0 takes no part. For \<^verbatim>\<open>["A1", 2, 3, 1]\<close> and
  \<^verbatim>\<open>["A1", 2, 1, 1]\<close> the result is 2.
\<close>

theorem calculate_d_score_sum:
  "(length p = length t \<and> 2 \<le> length p \<and> list_all is_int (tl p) \<and> list_all is_int (tl t) \<longrightarrow>
      calculate_d_score (PList p) (PList t) =
        Inr (\<Sum>i = 1..<length p. \<bar>int_of (p ! i) - int_of (t ! i)\<bar>)) \<and>
   calculate_d_score (PList [PStr ''A1'', PInt 2, PInt 3, PInt 1])
                     (PList [PStr ''A1'', PInt 2, PInt 1, PInt 1]) = Inr 2"
proof
  show "length p = length t \<and> 2 \<le> length p \<and> list_all is_int (tl p) \<and> list_all is_int (tl t) \<longrightarrow>
      calculate_d_score (PList p) (PList t) =
        Inr (\<Sum>i = 1..<length p. \<bar>int_of (p ! i) - int_of (t ! i)\<bar>)"
    using calculate_d_score_ints by blast
next
  show "calculate_d_score (PList [PStr ''A1'', PInt 2, PInt 3, PInt 1])
                     (PList [PStr ''A1'', PInt 2, PInt 1, PInt 1]) = Inr 2"
    by (simp add: calculate_d_score_def d_safe_int_conversion_def)
qed

theorem calculate_d_score_sum_witness:
  "length [PStr ''B2'', PInt 4, PInt 1] = length [PStr ''B2'', PInt 1, PInt 5] \<and>
   list_all is_int (tl [PStr ''B2'', PInt 4, PInt 1]) \<and>
   list_all is_int (tl [PStr ''B2'', PInt 1, PInt 5]) \<and>
   calculate_d_score (PList [PStr ''B2'', PInt 4, PInt 1]) (PList [PStr ''B2'', PInt 1, PInt 5]) = Inr 7"
  using calculate_d_score_sum [of "[PStr ''B2'', PInt 4, PInt 1]" "[PStr ''B2'', PInt 1, PInt 5]"]
  by (simp add: is_int_def int_of_def eval_nat_numeral)

text \<open>
  Claim C4. For lists of unequal length \<open>calculate_d_score\<close> raises the validation error
  of its length check and returns no D-Score. The statement holds for all elements,
  also for those on which a distance term would raise \<^verbatim>\<open>TypeError\<close>: the check comes
  before any term is computed.
\<close>

theorem calculate_d_score_length_mismatch:
  "length p \<noteq> length t \<Longrightarrow>
   calculate_d_score (PList p) (PList t) =
     Inl (ValueError ''p_score and t_score must have the same length.'') \<and>
   (\<forall>d. calculate_d_score (PList p) (PList t) \<noteq> Inr d)"
  by (simp add: calculate_d_score_def)

theorem calculate_d_score_length_mismatch_witness:
  "length [PStr ''A1'', PStr ''x''] \<noteq> length [PStr ''A1'', PNone, PInt 3] \<and>
   calculate_d_score (PList [PStr ''A1'', PStr ''x'']) (PList [PStr ''A1'', PNone, PInt 3]) =
     Inl (ValueError ''p_score and t_score must have the same length.'')"
  using calculate_d_score_length_mismatch [of "[PStr ''A1'', PStr ''x'']" "[PStr ''A1'', PNone, PInt 3]"]
  by simp

text \<open>
  Claim C8. For a valid pair (equal length, at least one scoring element, integers after
  the identifier) the D-Score is returned, is at least 0, and is 0 exactly when the two
  lists agree at every position after the identifier.
\<close>

theorem calculate_d_score_nonneg_zero:
  assumes "length p = length t" and "2 \<le> length p"
    and "list_all is_int (tl p)" and "list_all is_int (tl t)"
  shows "\<exists>d. calculate_d_score (PList p) (PList t) = Inr d \<and> 0 \<le> d \<and>
             (d = 0 \<longleftrightarrow> (\<forall>i. 1 \<le> i \<and> i < length p \<longrightarrow> p ! i = t ! i))"
proof -
  have len: "length (tl p) = length (tl t)" using assms(1) by simp
  obtain d where d: "sum_abs_diff (zip (tl p) (tl t)) = Inr d" "0 \<le> d" "d = 0 \<longleftrightarrow> tl p = tl t"
    using sum_abs_diff_zero [OF len assms(3) assms(4)] by blast
  have "tl p = tl t \<longleftrightarrow> (\<forall>i. 1 \<le> i \<and> i < length p \<longrightarrow> p ! i = t ! i)"
  proof
    assume eq: "tl p = tl t"
    show "\<forall>i. 1 \<le> i \<and> i < length p \<longrightarrow> p ! i = t ! i"
    proof (intro allI impI)
      fix i assume i: "1 \<le> i \<and> i < length p"
      then obtain j where j: "i = Suc j" by (cases i) simp_all
      with i have "j < length (tl p)" "j < length (tl t)" using assms(1) by simp_all
      then have "tl p ! j = p ! i" "tl t ! j = t ! i"
        using j by (simp_all add: nth_tl)
      with eq show "p ! i = t ! i" by simp
    qed
  next
    assume all: "\<forall>i. 1 \<le> i \<and> i < length p \<longrightarrow> p ! i = t ! i"
    show "tl p = tl t"
    proof (rule nth_equalityI)
      show "length (tl p) = length (tl t)" by (rule len)
    next
      fix i assume "i < length (tl p)"
      then have "Suc i < length p" by simp
      with all have "p ! Suc i = t ! Suc i" by simp
      with \<open>i < length (tl p)\<close> len show "tl p ! i = tl t ! i"
        by (simp add: nth_tl)
    qed
  qed
  with d have "d = 0 \<longleftrightarrow> (\<forall>i. 1 \<le> i \<and> i < length p \<longrightarrow> p ! i = t ! i)" by simp
  moreover have "calculate_d_score (PList p) (PList t) = Inr d"
    using assms(1,2) d(1) by (simp add: calculate_d_score_def)
  ultimately show ?thesis using d(2) by blast
qed

theorem calculate_d_score_nonneg_zero_witness:
  "calculate_d_score (PList [PStr ''A1'', PInt 2, PInt 3, PInt 1])
                     (PList [PStr ''A1'', PInt 2, PInt 3, PInt 1]) = Inr 0"
proof -
  let ?p = "[PStr ''A1'', PInt 2, PInt 3, PInt 1]"
  have h: "length ?p = length ?p" "2 \<le> length ?p" "list_all is_int (tl ?p)"
    by (simp_all add: is_int_def)
  from calculate_d_score_nonneg_zero [OF h(1) h(2) h(3) h(3)]
  show ?thesis by auto
qed

section \<open>Properties of the encoder\<close>

lemma py_split_from_nonempty: "py_split_from sep acc s \<noteq> []"
  by (induction sep acc s rule: py_split_from.induct) auto

lemma py_split_nonempty: "py_split sep s \<noteq> []"
  by (simp add: py_split_def py_split_from_nonempty)

text \<open>
  Claim C7. For every non-empty T-Score string \<open>convert_t_score\<close> returns: the first
  piece is kept as the identifier, and every later piece is converted on its own. A
  piece that \<^verbatim>\<open>int\<close> cannot parse becomes the sentinel -1, a piece it can parse
  becomes its value, whatever the other pieces are.
\<close>

theorem convert_t_score_soft_failure:
  assumes "s \<noteq> []"
  shows "\<exists>ident pieces vals.
           py_split '', '' (py_remove_char (CHR 0x27) (py_strip_chars ''[]'' s)) = ident # pieces \<and>
           convert_t_score (PStr s) = Inr (PList (PStr ident # map PInt vals)) \<and>
           length vals = length pieces \<and>
           (\<forall>i < length pieces.
              (py_int (py_strip (pieces ! i)) = None \<longrightarrow> vals ! i = - 1) \<and>
              (\<forall>n. py_int (py_strip (pieces ! i)) = Some n \<longrightarrow> vals ! i = n))"
proof -
  let ?els = "py_split '', '' (py_remove_char (CHR 0x27) (py_strip_chars ''[]'' s))"
  obtain ident pieces where els: "?els = ident # pieces"
    using py_split_nonempty [of "'', ''"] by (cases ?els) auto
  let ?vals = "map t_safe_int_conversion pieces"
  have conv: "convert_t_score (PStr s) = Inr (PList (PStr ident # map PInt ?vals))"
    using assms els by (simp add: convert_t_score_def Let_def comp_def)
  have each: "\<forall>i < length pieces.
              (py_int (py_strip (pieces ! i)) = None \<longrightarrow> ?vals ! i = - 1) \<and>
              (\<forall>n. py_int (py_strip (pieces ! i)) = Some n \<longrightarrow> ?vals ! i = n)"
    by (simp add: t_safe_int_conversion_def)
  have len: "length ?vals = length pieces" by simp
  from els conv len each show ?thesis by blast
qed

lemma ex_pieces: "py_split '', '' (py_remove_char (CHR 0x27) (py_strip_chars ''[]'' ''[A1, 2, x, 3]'')) = [''A1'', ''2'', ''x'', ''3'']"
  by (simp add: py_split_def py_remove_char_def py_strip_chars_def)

theorem convert_t_score_soft_failure_witness:
  "convert_t_score (PStr ''[A1, 2, x, 3]'') = Inr (PList [PStr ''A1'', PInt 2, PInt (- 1), PInt 3])"
proof -
  have ne: "''[A1, 2, x, 3]'' \<noteq> []" by simp
  from convert_t_score_soft_failure [OF ne]
  obtain ident pieces vals where
    a: "[''A1'', ''2'', ''x'', ''3''] = ident # pieces"
    and b: "convert_t_score (PStr ''[A1, 2, x, 3]'') = Inr (PList (PStr ident # map PInt vals))"
    and c: "length vals = length pieces"
    and d: "\<forall>i < length pieces.
              (py_int (py_strip (pieces ! i)) = None \<longrightarrow> vals ! i = - 1) \<and>
              (\<forall>n. py_int (py_strip (pieces ! i)) = Some n \<longrightarrow> vals ! i = n)"
    unfolding ex_pieces by blast
  from a have id: "ident = ''A1''" and ps: "pieces = [''2'', ''x'', ''3'']" by simp_all
  from c ps obtain v0 v1 v2 where vs: "vals = [v0, v1, v2]"
    by (cases vals; cases "tl vals"; cases "tl (tl vals)") auto
  have p0: "py_int (py_strip ''2'') = Some 2" and p1: "py_int (py_strip ''x'') = None"
    and p2: "py_int (py_strip ''3'') = Some 3"
    by (simp_all add: py_split_def py_remove_char_def py_strip_chars_def py_int_def py_strip_def
        py_isspace_def py_unsigned_def int_max_str_digits_def py_isdigit_def py_digit_def)
  from d [rule_format, of 0] d [rule_format, of 1] d [rule_format, of 2] ps vs p0 p1 p2
  have "v0 = 2" "v1 = - 1" "v2 = 3" by simp_all
  with b id vs show ?thesis by simp
qed

section \<open>Properties of the filter\<close>

lemma py_startswith_iff: "py_startswith s p \<longleftrightarrow> (\<exists>rest. s = p @ rest)"
proof
  assume "py_startswith s p"
  then have "s = p @ drop (length p) s"
    by (metis append_take_drop_id py_startswith_def)
  then show "\<exists>rest. s = p @ rest" ..
next
  assume "\<exists>rest. s = p @ rest"
  then show "py_startswith s p" by (auto simp: py_startswith_def)
qed

lemma is_str_simps:
  "is_str (PStr s)" "\<not> is_str (PInt n)" "\<not> is_str PNone" "\<not> is_str (PList xs)"
  "\<not> is_list (PStr s)" "\<not> is_list (PInt n)" "\<not> is_list PNone" "is_list (PList xs)"
  by (simp_all add: is_str_def is_list_def)

text \<open>
  What \<open>filter_treatments\<close> returns once its three checks are passed, for a concern-code
  column of strings and missing values.
\<close>

lemma filter_treatments_eq:
  assumes "\<not> df_empty data" and "''Concern Code'' \<in> set (columns data)"
    and "py_strip code \<noteq> []"
    and "list_all (\<lambda>r. is_str (r ''Concern Code'') \<or> r ''Concern Code'' = PNone) (rows data)"
  shows "filter_treatments data (PStr code) =
    (if \<not> list_ex (\<lambda>r. is_str (r ''Concern Code'')) (rows data) then Inl AttributeError
     else if filter (\<lambda>r. \<exists>c. r ''Concern Code'' = PStr c \<and> (\<exists>rest. c = code @ rest)) (rows data) = []
     then Inl (ValueError (''No treatments found for Concern Code: '' @ code))
     else Inr (data\<lparr>rows := filter (\<lambda>r. \<exists>c. r ''Concern Code'' = PStr c \<and> (\<exists>rest. c = code @ rest)) (rows data)\<rparr>))"
proof -
  let ?kept = "filter (\<lambda>r. \<exists>c. r ''Concern Code'' = PStr c \<and> (\<exists>rest. c = code @ rest)) (rows data)"
  let ?d = "dropna ''Concern Code'' data"
  have pred: "\<And>r. (r ''Concern Code'' \<noteq> PNone \<and>
        (case r ''Concern Code'' of PStr c \<Rightarrow> py_startswith c code | _ \<Rightarrow> False)) =
        (\<exists>c. r ''Concern Code'' = PStr c \<and> (\<exists>rest. c = code @ rest))"
    by (auto simp: py_startswith_iff split: pyval.splits)
  have no_bad: "\<not> list_ex (\<lambda>r. \<not> is_str (r ''Concern Code'')) (rows ?d)"
    using assms(4) by (auto simp: dropna_def list_ex_iff list_all_iff)
  have cell: "(r ''Concern Code'' \<noteq> PNone \<and>
                (is_str (r ''Concern Code'') \<or> is_list (r ''Concern Code''))) =
               is_str (r ''Concern Code'')"
    if "is_str (r ''Concern Code'') \<or> r ''Concern Code'' = PNone" for r
    using that by (cases "r ''Concern Code''") (simp_all add: is_str_simps)
  have some: "list_ex (\<lambda>r. is_str (r ''Concern Code'') \<or> is_list (r ''Concern Code'')) (rows ?d) =
              list_ex (\<lambda>r. is_str (r ''Concern Code'')) (rows data)"
    using assms(4) cell by (auto simp: dropna_def list_ex_iff list_all_iff)
  have kept: "?d\<lparr>rows := filter (\<lambda>r. case r ''Concern Code'' of PStr c \<Rightarrow> py_startswith c code
                  | _ \<Rightarrow> False) (rows ?d)\<rparr> = data\<lparr>rows := ?kept\<rparr>"
    unfolding dropna_def by (simp add: pred)
  have sel: "select_startswith ''Concern Code'' code ?d =
        (if \<not> list_ex (\<lambda>r. is_str (r ''Concern Code'')) (rows data) then Inl AttributeError
         else Inr (data\<lparr>rows := ?kept\<rparr>))"
    unfolding select_startswith_def some using no_bad kept by simp
  have cols: "columns data \<noteq> []" using assms(2) by auto
  have guards: "\<not> df_empty data" "''Concern Code'' \<in> set (columns data)" "py_strip code \<noteq> []"
    using assms by simp_all
  show ?thesis
    using guards cols by (simp add: filter_treatments_def sel df_empty_def)
qed

text \<open>
  The claim as stated, for every non-empty target, fails at the target \<^verbatim>\<open>" "\<close>: it is
  not empty, the one row of the table has a concern code that starts with it, and
  \<open>filter_treatments\<close> raises instead of keeping the row, because its guard tests the
  target with its whitespace stripped.
\<close>

theorem filter_treatments_blank_target:
  "'' '' \<noteq> [] \<and> py_startswith '' A1'' '' '' \<and>
   map (\<lambda>r. r ''Concern Code'') (rows blank_catalog) = [PStr '' A1''] \<and>
   filter_treatments blank_catalog (PStr '' '') =
     Inl (ValueError ''Concern Code must be a non-empty string.'')"
  by (simp add: filter_treatments_def blank_catalog_def catalog_columns_def coded_def
      py_startswith_def df_empty_def py_strip_def py_isspace_def)

text \<open>
  Claim C3, amended. Take a table that is not empty and has a concern-code column of
  strings and missing values. A target that is blank (empty once its whitespace is
  stripped) is rejected with a \<^verbatim>\<open>ValueError\<close>. For a target that is not blank,
  \<open>filter_treatments\<close> returns exactly the rows whose concern code starts with the target,
  in their order, with the columns unchanged; it returns if and only if there is such a
  row. The witness is the example of the claim: the target \<^verbatim>\<open>"A"\<close> keeps the rows coded
  \<^verbatim>\<open>"A"\<close>, \<^verbatim>\<open>"A1"\<close>, \<^verbatim>\<open>"A23"\<close> and not \<^verbatim>\<open>"B1"\<close>.
\<close>

theorem filter_treatments_prefix:
  assumes "\<not> df_empty data" and "''Concern Code'' \<in> set (columns data)"
    and "list_all (\<lambda>r. is_str (r ''Concern Code'') \<or> r ''Concern Code'' = PNone) (rows data)"
  shows "(py_strip code = [] \<longrightarrow>
            filter_treatments data (PStr code) =
              Inl (ValueError ''Concern Code must be a non-empty string.'')) \<and>
         (py_strip code \<noteq> [] \<longrightarrow>
            (\<forall>out. filter_treatments data (PStr code) = Inr out \<longrightarrow>
               columns out = columns data \<and>
               rows out = filter (\<lambda>r. \<exists>c. r ''Concern Code'' = PStr c \<and> (\<exists>rest. c = code @ rest))
                            (rows data)) \<and>
            ((\<exists>out. filter_treatments data (PStr code) = Inr out) \<longleftrightarrow>
               (\<exists>r \<in> set (rows data). \<exists>c. r ''Concern Code'' = PStr c \<and> (\<exists>rest. c = code @ rest))))"
proof (intro conjI impI)
  assume "py_strip code = []"
  with assms(1,2) show "filter_treatments data (PStr code) =
              Inl (ValueError ''Concern Code must be a non-empty string.'')"
    by (simp add: filter_treatments_def)
next
  assume nb: "py_strip code \<noteq> []"
  have e: "(filter (\<lambda>r. \<exists>c. r ''Concern Code'' = PStr c \<and> (\<exists>rest. c = code @ rest)) (rows data) = []) \<longleftrightarrow>
        \<not> (\<exists>r \<in> set (rows data). \<exists>c. r ''Concern Code'' = PStr c \<and> (\<exists>rest. c = code @ rest))"
    by (auto simp: filter_empty_conv)
  have s: "list_ex (\<lambda>r. is_str (r ''Concern Code'')) (rows data)"
    if "\<exists>r \<in> set (rows data). \<exists>c. r ''Concern Code'' = PStr c \<and> (\<exists>rest. c = code @ rest)"
  proof -
    from that obtain r c where "r \<in> set (rows data)" and "r ''Concern Code'' = PStr c" by blast
    then have "r \<in> set (rows data) \<and> is_str (r ''Concern Code'')" by (simp add: is_str_simps)
    then show ?thesis unfolding list_ex_iff by blast
  qed
  note eq = filter_treatments_eq [OF assms(1,2) nb assms(3)]
  show "\<forall>out. filter_treatments data (PStr code) = Inr out \<longrightarrow>
               columns out = columns data \<and>
               rows out = filter (\<lambda>r. \<exists>c. r ''Concern Code'' = PStr c \<and> (\<exists>rest. c = code @ rest))
                            (rows data)"
    unfolding eq by (auto split: if_splits)
  show "(\<exists>out. filter_treatments data (PStr code) = Inr out) \<longleftrightarrow>
               (\<exists>r \<in> set (rows data). \<exists>c. r ''Concern Code'' = PStr c \<and> (\<exists>rest. c = code @ rest))"
    unfolding eq using e s by (auto split: if_splits)
qed

theorem filter_treatments_prefix_witness:
  "py_strip ''A'' \<noteq> [] \<and>
   (\<exists>out. filter_treatments prefix_catalog (PStr ''A'') = Inr out \<and>
     map (\<lambda>r. r ''Treatment Brand/Name'') (rows out) = [PStr ''t1'', PStr ''t3'', PStr ''t5''] \<and>
     map (\<lambda>r. r ''Concern Code'') (rows out) = [PStr ''A'', PStr ''A1'', PStr ''A23'']) \<and>
   py_strip [CHR 0x09, CHR 0xA0] = [] \<and>
   filter_treatments prefix_catalog (PStr [CHR 0x09, CHR 0xA0]) =
     Inl (ValueError ''Concern Code must be a non-empty string.'')"
proof -
  have g: "\<not> df_empty prefix_catalog" "''Concern Code'' \<in> set (columns prefix_catalog)"
    "list_all (\<lambda>r. is_str (r ''Concern Code'') \<or> r ''Concern Code'' = PNone) (rows prefix_catalog)"
    by (simp_all add: prefix_catalog_def catalog_columns_def df_empty_def
        coded_def uncoded_def is_str_def)
  have nb: "py_strip ''A'' \<noteq> []" by (simp add: py_strip_def py_isspace_def)
  have bl: "py_strip [CHR 0x09, CHR 0xA0] = []" by (simp add: py_strip_def py_isspace_def)
  have m: "\<exists>r \<in> set (rows prefix_catalog). \<exists>c. r ''Concern Code'' = PStr c \<and> (\<exists>rest. c = ''A'' @ rest)"
    by (simp add: prefix_catalog_def coded_def)
  from filter_treatments_prefix [OF g, of "''A''"] nb m obtain out where
    o: "filter_treatments prefix_catalog (PStr ''A'') = Inr out"
    and r: "rows out = filter (\<lambda>r. \<exists>c. r ''Concern Code'' = PStr c \<and> (\<exists>rest. c = ''A'' @ rest)) (rows prefix_catalog)"
    by blast
  have "rows out = [coded ''t1'' ''A'' ''[A, 1]'', coded ''t3'' ''A1'' ''[A1, 2]'', coded ''t5'' ''A23'' ''[A23, 1]'']"
    unfolding r by (simp add: prefix_catalog_def coded_def uncoded_def)
  then have "map (\<lambda>r. r ''Treatment Brand/Name'') (rows out) = [PStr ''t1'', PStr ''t3'', PStr ''t5''] \<and>
     map (\<lambda>r. r ''Concern Code'') (rows out) = [PStr ''A'', PStr ''A1'', PStr ''A23'']"
    by (simp add: coded_def)
  with o have ex: "\<exists>out. filter_treatments prefix_catalog (PStr ''A'') = Inr out \<and>
     map (\<lambda>r. r ''Treatment Brand/Name'') (rows out) = [PStr ''t1'', PStr ''t3'', PStr ''t5''] \<and>
     map (\<lambda>r. r ''Concern Code'') (rows out) = [PStr ''A'', PStr ''A1'', PStr ''A23'']"
    by (intro exI [of _ out]) simp
  from filter_treatments_prefix [OF g, of "[CHR 0x09, CHR 0xA0]"] bl
  have rej: "filter_treatments prefix_catalog (PStr [CHR 0x09, CHR 0xA0]) =
     Inl (ValueError ''Concern Code must be a non-empty string.'')" by blast
  from nb ex bl rej show ?thesis by (intro conjI)
qed

text \<open>
  Claim C10. Where \<open>filter_treatments\<close> reaches its filter (a table that is not empty,
  with the column; a target that is not blank), rows whose concern code is missing are
  never in the result; the result is the one the table without those rows gives; and
  an exception means that the prefix filter has nothing to return after the drop: it is
  the \<^verbatim>\<open>ValueError\<close> of line 193, or, when the drop leaves no row at all, the
  \<^verbatim>\<open>AttributeError\<close> of the \<^verbatim>\<open>.str\<close> accessor on a column without text.
\<close>

theorem filter_treatments_drops_missing:
  assumes "\<not> df_empty data" and "''Concern Code'' \<in> set (columns data)"
    and "py_strip code \<noteq> []"
    and "list_all (\<lambda>r. is_str (r ''Concern Code'') \<or> r ''Concern Code'' = PNone) (rows data)"
  shows "(\<forall>out. filter_treatments data (PStr code) = Inr out \<longrightarrow>
            list_all (\<lambda>r. r ''Concern Code'' \<noteq> PNone) (rows out)) \<and>
         (\<not> df_empty (dropna ''Concern Code'' data) \<longrightarrow>
            filter_treatments data (PStr code) =
            filter_treatments (dropna ''Concern Code'' data) (PStr code)) \<and>
         (\<forall>e. filter_treatments data (PStr code) = Inl e \<longrightarrow>
            filter (\<lambda>r. case r ''Concern Code'' of PStr c \<Rightarrow> py_startswith c code | _ \<Rightarrow> False)
              (rows (dropna ''Concern Code'' data)) = [] \<and>
            (e = ValueError (''No treatments found for Concern Code: '' @ code) \<or>
             e = AttributeError \<and> rows (dropna ''Concern Code'' data) = []))"
proof -
  let ?d = "dropna ''Concern Code'' data"
  let ?m = "\<lambda>r. \<exists>c. r ''Concern Code'' = PStr c \<and> (\<exists>rest. c = code @ rest)"
  have pred: "\<And>r. (r ''Concern Code'' \<noteq> PNone \<and>
        (case r ''Concern Code'' of PStr c \<Rightarrow> py_startswith c code | _ \<Rightarrow> False)) = ?m r"
    by (auto simp: py_startswith_iff split: pyval.splits)
  have same: "filter ?m (rows ?d) = filter ?m (rows data)"
    by (auto simp: dropna_def intro: filter_cong)
  have upd: "?d\<lparr>rows := filter ?m (rows data)\<rparr> = data\<lparr>rows := filter ?m (rows data)\<rparr>"
    by (simp add: dropna_def)
  have strs: "list_ex (\<lambda>r. is_str (r ''Concern Code'')) (rows ?d) =
              list_ex (\<lambda>r. is_str (r ''Concern Code'')) (rows data)"
    by (auto simp: dropna_def list_ex_iff is_str_simps)
  have dropped: "rows ?d = []" if "\<not> list_ex (\<lambda>r. is_str (r ''Concern Code'')) (rows data)"
  proof -
    have "r ''Concern Code'' = PNone" if "r \<in> set (rows data)" for r
      using assms(4) that \<open>\<not> list_ex (\<lambda>r. is_str (r ''Concern Code'')) (rows data)\<close>
      by (auto simp: list_all_iff list_ex_iff)
    then show ?thesis by (simp add: dropna_def filter_empty_conv)
  qed
  note eq = filter_treatments_eq [OF assms]
  have a: "\<forall>out. filter_treatments data (PStr code) = Inr out \<longrightarrow>
            list_all (\<lambda>r. r ''Concern Code'' \<noteq> PNone) (rows out)"
  proof (intro allI impI)
    fix out assume "filter_treatments data (PStr code) = Inr out"
    then have "rows out = filter ?m (rows data)"
      unfolding eq by (simp split: if_splits) auto
    then show "list_all (\<lambda>r. r ''Concern Code'' \<noteq> PNone) (rows out)"
      by (auto simp: list_all_iff)
  qed
  have b: "\<not> df_empty ?d \<longrightarrow> filter_treatments data (PStr code) = filter_treatments ?d (PStr code)"
  proof
    assume ne: "\<not> df_empty ?d"
    have c: "''Concern Code'' \<in> set (columns ?d)" using assms(2) by (simp add: dropna_def)
    have l: "list_all (\<lambda>r. is_str (r ''Concern Code'') \<or> r ''Concern Code'' = PNone) (rows ?d)"
      using assms(4) by (auto simp: dropna_def list_all_iff)
    show "filter_treatments data (PStr code) = filter_treatments ?d (PStr code)"
      unfolding eq filter_treatments_eq [OF ne c assms(3) l] same upd strs ..
  qed
  have c: "\<forall>e. filter_treatments data (PStr code) = Inl e \<longrightarrow>
            filter (\<lambda>r. case r ''Concern Code'' of PStr c \<Rightarrow> py_startswith c code | _ \<Rightarrow> False)
              (rows ?d) = [] \<and>
            (e = ValueError (''No treatments found for Concern Code: '' @ code) \<or>
             e = AttributeError \<and> rows ?d = [])"
  proof (intro allI impI)
    fix e assume e: "filter_treatments data (PStr code) = Inl e"
    have f: "filter (\<lambda>r. case r ''Concern Code'' of PStr c \<Rightarrow> py_startswith c code | _ \<Rightarrow> False)
              (rows ?d) = filter ?m (rows data)"
      unfolding dropna_def by (simp add: pred)
    show "filter (\<lambda>r. case r ''Concern Code'' of PStr c \<Rightarrow> py_startswith c code | _ \<Rightarrow> False)
              (rows ?d) = [] \<and>
            (e = ValueError (''No treatments found for Concern Code: '' @ code) \<or>
             e = AttributeError \<and> rows ?d = [])"
    proof (cases "list_ex (\<lambda>r. is_str (r ''Concern Code'')) (rows data)")
      case True
      with e have "filter ?m (rows data) = []"
        and "e = ValueError (''No treatments found for Concern Code: '' @ code)"
        unfolding eq by (simp_all split: if_splits)
      with f show ?thesis by simp
    next
      case False
      with e have "e = AttributeError" unfolding eq by simp
      moreover from False have "rows ?d = []" by (rule dropped)
      ultimately show ?thesis by simp
    qed
  qed
  from a b c show ?thesis by blast
qed

theorem filter_treatments_drops_missing_witness:
  "map (\<lambda>r. r ''Concern Code'') (rows prefix_catalog) =
     [PStr ''A'', PStr ''B1'', PStr ''A1'', PNone, PStr ''A23''] \<and>
   filter_treatments prefix_catalog (PStr ''A1'') =
     filter_treatments (dropna ''Concern Code'' prefix_catalog) (PStr ''A1'') \<and>
   (\<exists>out. filter_treatments prefix_catalog (PStr ''A1'') = Inr out \<and>
      map (\<lambda>r. r ''Treatment Brand/Name'') (rows out) = [PStr ''t3''] \<and>
      list_all (\<lambda>r. r ''Concern Code'' \<noteq> PNone) (rows out)) \<and>
   filter_treatments prefix_catalog (PStr ''Z'') =
     Inl (ValueError ''No treatments found for Concern Code: Z'') \<and>
   filter_treatments uncoded_catalog (PStr ''A1'') = Inl AttributeError \<and>
   rows (dropna ''Concern Code'' uncoded_catalog) = []"
proof -
  have g: "\<not> df_empty prefix_catalog" "''Concern Code'' \<in> set (columns prefix_catalog)"
    "py_strip ''A1'' \<noteq> []"
    "list_all (\<lambda>r. is_str (r ''Concern Code'') \<or> r ''Concern Code'' = PNone) (rows prefix_catalog)"
    by (simp_all add: prefix_catalog_def catalog_columns_def df_empty_def py_strip_def
        py_isspace_def coded_def uncoded_def is_str_def)
  have z: "py_strip ''Z'' \<noteq> []" by (simp add: py_strip_def py_isspace_def)
  have u: "\<not> df_empty uncoded_catalog" "''Concern Code'' \<in> set (columns uncoded_catalog)"
    "py_strip ''A1'' \<noteq> []"
    "list_all (\<lambda>r. is_str (r ''Concern Code'') \<or> r ''Concern Code'' = PNone) (rows uncoded_catalog)"
    by (simp_all add: uncoded_catalog_def catalog_columns_def df_empty_def py_strip_def
        py_isspace_def uncoded_def)
  have ne: "\<not> df_empty (dropna ''Concern Code'' prefix_catalog)"
    by (simp add: prefix_catalog_def catalog_columns_def df_empty_def dropna_def coded_def)
  note t = filter_treatments_drops_missing [OF g]
  from t ne have same: "filter_treatments prefix_catalog (PStr ''A1'') =
     filter_treatments (dropna ''Concern Code'' prefix_catalog) (PStr ''A1'')"
    by blast
  have strs: "list_ex (\<lambda>r. is_str (r ''Concern Code'')) (rows prefix_catalog)"
    by (simp add: prefix_catalog_def coded_def is_str_def)
  have k: "filter (\<lambda>r. \<exists>c. r ''Concern Code'' = PStr c \<and> (\<exists>rest. c = ''A1'' @ rest))
             (rows prefix_catalog) = [coded ''t3'' ''A1'' ''[A1, 2]'']"
    by (simp add: prefix_catalog_def coded_def uncoded_def)
  have res: "filter_treatments prefix_catalog (PStr ''A1'') =
        Inr (prefix_catalog\<lparr>rows := [coded ''t3'' ''A1'' ''[A1, 2]'']\<rparr>)"
    unfolding filter_treatments_eq [OF g] k using strs by simp
  from t res have "list_all (\<lambda>r. r ''Concern Code'' \<noteq> PNone)
        (rows (prefix_catalog\<lparr>rows := [coded ''t3'' ''A1'' ''[A1, 2]'']\<rparr>))"
    by blast
  with res have ex: "\<exists>out. filter_treatments prefix_catalog (PStr ''A1'') = Inr out \<and>
      map (\<lambda>r. r ''Treatment Brand/Name'') (rows out) = [PStr ''t3''] \<and>
      list_all (\<lambda>r. r ''Concern Code'' \<noteq> PNone) (rows out)"
    by (simp add: coded_def)
  have cells: "map (\<lambda>r. r ''Concern Code'') (rows prefix_catalog) =
     [PStr ''A'', PStr ''B1'', PStr ''A1'', PNone, PStr ''A23'']"
    by (simp add: prefix_catalog_def coded_def uncoded_def)
  have kz: "filter (\<lambda>r. \<exists>c. r ''Concern Code'' = PStr c \<and> (\<exists>rest. c = ''Z'' @ rest))
             (rows prefix_catalog) = []"
    by (simp add: prefix_catalog_def coded_def uncoded_def)
  have zres: "filter_treatments prefix_catalog (PStr ''Z'') =
     Inl (ValueError ''No treatments found for Concern Code: Z'')"
    unfolding filter_treatments_eq [OF g(1,2) z g(4)] kz using strs by simp
  have nostr: "\<not> list_ex (\<lambda>r. is_str (r ''Concern Code'')) (rows uncoded_catalog)"
    by (simp add: uncoded_catalog_def uncoded_def is_str_def)
  have ures: "filter_treatments uncoded_catalog (PStr ''A1'') = Inl AttributeError"
    unfolding filter_treatments_eq [OF u] using nostr by simp
  from filter_treatments_drops_missing [OF u] ures
  have "AttributeError = ValueError (''No treatments found for Concern Code: '' @ ''A1'') \<or>
        AttributeError = AttributeError \<and> rows (dropna ''Concern Code'' uncoded_catalog) = []"
    by blast
  then have ud: "rows (dropna ''Concern Code'' uncoded_catalog) = []" by simp
  from cells same ex zres ures ud show ?thesis by (intro conjI)
qed

section \<open>Properties of the survey answers\<close>

lemma answers_length: "answers rs qs = Inr vs \<Longrightarrow> length vs = length qs"
proof (induction qs arbitrary: vs)
  case Nil
  then show ?case by simp
next
  case (Cons q qs)
  then show ?case
    by (auto split: option.splits pyval.splits sum.splits)
qed

lemma answers_default:
  "answers rs qs = Inr vs \<Longrightarrow> i < length qs \<Longrightarrow> (qs ! i) ''question'' = Some (PStr k) \<Longrightarrow>
   vs ! i = (case rs k of Some v \<Rightarrow> v | None \<Rightarrow> PInt 1)"
proof (induction qs arbitrary: vs i)
  case Nil
  then show ?case by simp
next
  case (Cons q qs)
  show ?case
  proof (cases i)
    case 0
    with Cons.prems show ?thesis
      by (auto split: option.splits pyval.splits sum.splits)
  next
    case (Suc j)
    from Cons.prems(1) obtain v vs' where vs: "vs = v # vs'" and rest: "answers rs qs = Inr vs'"
      by (auto split: option.splits pyval.splits sum.splits)
    from Cons.prems Suc have "j < length qs" "(qs ! j) ''question'' = Some (PStr k)" by simp_all
    from Cons.IH [OF rest this] show ?thesis using vs Suc by simp
  qed
qed

lemma load_data_no_incomplete:
  assumes "StError [Lit ''Incomplete data. Please answer all the questions before submitting.'']
             \<notin> set (ui s)"
  shows "StError [Lit ''Incomplete data. Please answer all the questions before submitting.'']
             \<notin> set (ui (snd (load_data read_excel sheet_name s)))"
  using assms by (simp add: load_data_def st_show_def split: sum.split)

lemma recommend_treatments_no_incomplete:
  assumes "StError [Lit ''Incomplete data. Please answer all the questions before submitting.'']
             \<notin> set (ui s)"
  shows "StError [Lit ''Incomplete data. Please answer all the questions before submitting.'']
             \<notin> set (ui (snd (recommend_treatments read_excel p_score s)))"
proof -
  let ?sheet = "if responses s ''Delivery Mode'' = Some (PInt 1) then ''Non-injectable''
                else ''All treatments''"
  obtain data s1 where ld: "load_data read_excel ?sheet s = (data, s1)"
    by (cases "load_data read_excel ?sheet s") 
  have s1: "StError [Lit ''Incomplete data. Please answer all the questions before submitting.'']
             \<notin> set (ui s1)"
    using load_data_no_incomplete [OF assms, of read_excel ?sheet] ld by simp
  show ?thesis
    unfolding recommend_treatments_def Let_def ld
    using assms s1
    by (simp add: st_show_def split: sum.split option.split list.split)
qed

text \<open>
  Claim C9. In \<open>display_p_score\<close>, for a question list that is not empty and a concern
  code \<open>code\<close>, the list of scores, once built, is the code followed by one entry for
  each question after the first, so its length is the number of questions; an answer
  that is absent from the responses is 1. Hence the length check cannot fail: no run of
  \<open>display_p_score\<close> puts the message of that branch on the page.
\<close>

theorem display_p_score_length_check_unreachable:
  "(questions \<noteq> [] \<and> answers (responses s) (tl questions) = Inr vs \<longrightarrow>
      length (PStr code # vs) = length questions \<and>
      (\<forall>i k. i < length vs \<and> (tl questions ! i) ''question'' = Some (PStr k) \<and>
             responses s k = None \<longrightarrow> vs ! i = PInt 1)) \<and>
   (StError [Lit ''Incomplete data. Please answer all the questions before submitting.'']
      \<notin> set (ui s) \<longrightarrow>
    StError [Lit ''Incomplete data. Please answer all the questions before submitting.'']
      \<notin> set (ui (snd (display_p_score questions read_excel uuid s))))"
proof (intro conjI impI)
  assume a: "questions \<noteq> [] \<and> answers (responses s) (tl questions) = Inr vs"
  then have len: "length vs = length (tl questions)" using answers_length by blast
  with a show "length (PStr code # vs) = length questions" by simp
  show "\<forall>i k. i < length vs \<and> (tl questions ! i) ''question'' = Some (PStr k) \<and>
             responses s k = None \<longrightarrow> vs ! i = PInt 1"
  proof (intro allI impI)
    fix i k
    assume h: "i < length vs \<and> (tl questions ! i) ''question'' = Some (PStr k) \<and>
             responses s k = None"
    with len have "i < length (tl questions)" by simp
    from answers_default [OF conjunct2 [OF a] this] h show "vs ! i = PInt 1" by simp
  qed
next
  assume n: "StError [Lit ''Incomplete data. Please answer all the questions before submitting.'']
      \<notin> set (ui s)"
  show "StError [Lit ''Incomplete data. Please answer all the questions before submitting.'']
      \<notin> set (ui (snd (display_p_score questions read_excel uuid s)))"
  proof (cases "questions = []")
    case True
    with n show ?thesis by (simp add: display_p_score_def st_show_def)
  next
    case False
    show ?thesis
    proof (cases "answers (responses s) (tl questions)")
      case (Inl e)
      with n False show ?thesis
        by (simp add: display_p_score_def st_show_def split: sum.split option.split error.split)
    next
      case (Inr ws)
      then have eq: "length ws = length (tl questions)" using answers_length by blast
      with False have same: "Suc (length ws) = length questions" by simp
      have r: "\<And>sc. StError [Lit ''Incomplete data. Please answer all the questions before submitting.'']
          \<notin> set (ui (snd (recommend_treatments read_excel sc s)))"
        by (rule recommend_treatments_no_incomplete [OF n])
      have r': "\<And>sc e s1. recommend_treatments read_excel sc s = (e, s1) \<Longrightarrow>
          StError [Lit ''Incomplete data. Please answer all the questions before submitting.'']
          \<notin> set (ui s1)"
        using r by (metis snd_conv)
      from n False Inr same show ?thesis
        by (auto simp: display_p_score_def st_show_def Let_def dest: r'
            split: sum.split option.split prod.split)
    qed
  qed
qed

theorem display_p_score_length_check_unreachable_witness:
  "survey_questions \<noteq> [] \<and>
   extract_concern_code (PStr ''1) A1 Acne scars'') = Inr (Some ''A1'') \<and>
   answers (responses survey_session) (tl survey_questions) = Inr [PInt 3, PInt 1, PInt 1, PInt 1, PInt 1] \<and>
   length (PStr ''A1'' # [PInt 3, PInt 1, PInt 1, PInt 1, PInt 1]) = length survey_questions \<and>
   StError [Lit ''Incomplete data. Please answer all the questions before submitting.'']
      \<notin> set (ui (snd (display_p_score survey_questions (\<lambda>sheet. Inl ''no such file'')
                            ''1b9d6bcd-bbfd-4b2d'' survey_session)))"
proof -
  have q: "survey_questions \<noteq> []" by (simp add: survey_questions_def)
  have c: "extract_concern_code (PStr ''1) A1 Acne scars'') = Inr (Some ''A1'')"
    by (simp add: extract_concern_code_def truthy_def py_split_def)
  have a: "answers (responses survey_session) (tl survey_questions) = Inr [PInt 3, PInt 1, PInt 1, PInt 1, PInt 1]"
    by (simp add: survey_questions_def survey_session_def)
  have u: "StError [Lit ''Incomplete data. Please answer all the questions before submitting.'']
      \<notin> set (ui survey_session)"
    by (simp add: survey_session_def)
  note t = display_p_score_length_check_unreachable
      [of survey_questions survey_session "[PInt 3, PInt 1, PInt 1, PInt 1, PInt 1]" "''A1''"
          "\<lambda>sheet. Inl ''no such file''" "''1b9d6bcd-bbfd-4b2d''"]
  from t q a have l: "length (PStr ''A1'' # [PInt 3, PInt 1, PInt 1, PInt 1, PInt 1]) = length survey_questions"
    by blast
  from t u have n: "StError [Lit ''Incomplete data. Please answer all the questions before submitting.'']
      \<notin> set (ui (snd (display_p_score survey_questions (\<lambda>sheet. Inl ''no such file'')
                            ''1b9d6bcd-bbfd-4b2d'' survey_session)))"
    by blast
  from q c a l n show ?thesis by (intro conjI)
qed

section \<open>Properties of the matcher\<close>

lemma apply_rows_Inr_iff:
  "apply_rows f col rs = Inr rs' \<longleftrightarrow>
     list_all (\<lambda>r. \<not> isl (f r)) rs \<and> rs' = map (\<lambda>r. r(col := projr (f r))) rs"
proof (induction rs arbitrary: rs')
  case Nil
  then show ?case by auto
next
  case (Cons r rs)
  show ?case
  proof (cases "f r")
    case (Inl e)
    then show ?thesis by simp
  next
    case (Inr v)
    show ?thesis
    proof (cases "apply_rows f col rs")
      case (Inl e)
      with Cons.IH have "\<not> list_all (\<lambda>r. \<not> isl (f r)) rs" by auto
      with Inl Inr show ?thesis by simp
    next
      case ok: (Inr ts)
      from Cons.IH [of ts, THEN iffD1, OF ok]
      have all: "list_all (\<lambda>r. \<not> isl (f r)) rs"
        and ts: "ts = map (\<lambda>r. r(col := projr (f r))) rs" by blast+
      have "apply_rows f col (r # rs) = Inr (r(col := v) # ts)"
        using Inr ok by simp
      moreover have "\<not> isl (f r)" "projr (f r) = v" using Inr by simp_all
      ultimately show ?thesis using all ts by (auto simp: fun_upd_def)
    qed
  qed
qed

lemma score_catalog_Inr_iff:
  "score_catalog p data = Inr scored \<longleftrightarrow>
     ''T-Score'' \<in> set (columns data) \<and> list_all (scorable p) (rows data) \<and>
     scored = \<lparr>columns = add_column ''D-Score'' (columns data),
               rows = map (scored_of p) (rows data)\<rparr>"
proof (cases "''T-Score'' \<in> set (columns data)")
  case False
  then show ?thesis by (simp add: score_catalog_def)
next
  case True
  let ?f1 = "\<lambda>r. convert_t_score (r ''T-Score'')"
  let ?g1 = "\<lambda>r. r(''T-Score'' := projr (?f1 r))"
  show ?thesis
  proof (cases "apply_rows ?f1 ''T-Score'' (rows data)")
    case (Inl e)
    then have "\<not> list_all (\<lambda>r. \<not> isl (?f1 r)) (rows data)"
      using apply_rows_Inr_iff [of ?f1 "''T-Score''" "rows data"] by auto
    then have "\<not> list_all (scorable p) (rows data)"
      by (auto simp: list_all_iff scorable_def)
    with True Inl show ?thesis by (simp add: score_catalog_def)
  next
    case (Inr rows1)
    then have c1: "list_all (\<lambda>r. \<not> isl (?f1 r)) (rows data)" and r1: "rows1 = map ?g1 (rows data)"
      using apply_rows_Inr_iff [of ?f1 "''T-Score''" "rows data" rows1] by simp_all
    have step2: "apply_rows (d_score_cell p) ''D-Score'' rows1 = Inr rows2 \<longleftrightarrow>
        list_all (scorable p) (rows data) \<and> rows2 = map (scored_of p) (rows data)" for rows2
      unfolding apply_rows_Inr_iff r1 using c1
      by (auto simp: list_all_iff scorable_def scored_of_def Let_def)
    show ?thesis
    proof (cases "apply_rows (d_score_cell p) ''D-Score'' rows1")
      case (Inl e)
      with step2 have "\<not> list_all (scorable p) (rows data)" by auto
      with True Inr Inl show ?thesis
        by (simp add: score_catalog_def d_score_cell_def [abs_def])
    next
      case ok: (Inr rows2)
      with step2 [of rows2] have "list_all (scorable p) (rows data)"
        and "rows2 = map (scored_of p) (rows data)" by simp_all
      with True Inr ok show ?thesis
        by (auto simp: score_catalog_def d_score_cell_def [abs_def])
    qed
  qed
qed


lemma filter_treatments_Inr:
  assumes "filter_treatments d c = Inr f"
  shows "columns f = columns d \<and> rows f \<noteq> [] \<and> set (rows f) \<subseteq> set (rows d)"
  using assms
  by (auto simp: filter_treatments_def select_startswith_def dropna_def df_empty_def
      split: if_splits pyval.splits sum.splits)












lemma coded_cells:
  "coded n c t ''T-Score'' = PStr t" "coded n c t ''Concern Code'' = PStr c"
  "coded n c t ''Treatment Brand/Name'' = PStr n"
  "uncoded n t ''T-Score'' = PStr t" "uncoded n t ''Concern Code'' = PNone"
  "uncoded n t ''Treatment Brand/Name'' = PStr n"
  by (simp_all add: coded_def uncoded_def)

lemmas py_eval = convert_t_score_def py_split_def py_remove_char_def py_strip_chars_def
  t_safe_int_conversion_def py_int_def py_strip_def py_isspace_def py_unsigned_def
  int_max_str_digits_def py_isdigit_def py_digit_def

lemma convert_examples:
  "convert_t_score (PStr ''['A1', 2, 1, 1, 1, 1]'') = Inr (PList [PStr ''A1'', PInt 2, PInt 1, PInt 1, PInt 1, PInt 1])"
  "convert_t_score (PStr ''['B1', 3, 1, 1, 1, 1]'') = Inr (PList [PStr ''B1'', PInt 3, PInt 1, PInt 1, PInt 1, PInt 1])"
  "convert_t_score (PStr ''['A2', 1, 1, 1, 1, 1]'') = Inr (PList [PStr ''A2'', PInt 1, PInt 1, PInt 1, PInt 1, PInt 1])"
  "convert_t_score (PStr ''['A', 3, 3, 1, 1, 1]'') = Inr (PList [PStr ''A'', PInt 3, PInt 3, PInt 1, PInt 1, PInt 1])"
  "convert_t_score (PStr ''['B1', 3]'') = Inr (PList [PStr ''B1'', PInt 3])"
  "convert_t_score (PStr ''['A2', 3, 1, 1, 1, 1]'') = Inr (PList [PStr ''A2'', PInt 3, PInt 1, PInt 1, PInt 1, PInt 1])"
  "convert_t_score (PStr ''['A3', 1, 1, 1, 1, 1]'') = Inr (PList [PStr ''A3'', PInt 1, PInt 1, PInt 1, PInt 1, PInt 1])"
  "convert_t_score (PStr ''['A4', 3, 1, 1, 1, 1]'') = Inr (PList [PStr ''A4'', PInt 3, PInt 1, PInt 1, PInt 1, PInt 1])"
  "convert_t_score (PStr ''['A5', 9, 1, 1, 1, 1]'') = Inr (PList [PStr ''A5'', PInt 9, PInt 1, PInt 1, PInt 1, PInt 1])"
  "convert_t_score (PStr ''['A6', 4, 1, 1, 1, 1]'') = Inr (PList [PStr ''A6'', PInt 4, PInt 1, PInt 1, PInt 1, PInt 1])"
  by (simp_all add: py_eval)









text \<open>
  When a D-Score does not fit the 64-bit dtype, the column of D-Scores holds Python
  objects and the selection raises: no recommendation is returned.
\<close>

lemma top_recommendations_object_dtype:
  assumes "score_catalog p data = Inr scored" and "filter_treatments scored c = Inr filtered"
    and "\<not> column_numeric ''D-Score'' scored"
  shows "top_recommendations p c data = Inl TypeError"
proof -
  from assms(1) have sf: "scored = scored_frame p data"
    by (simp add: score_catalog_Inr_iff scored_frame_def)
  from filter_treatments_Inr [OF assms(2)]
  have cols: "columns filtered = columns scored" and nonempty: "rows filtered \<noteq> []" by simp_all
  have d: "''D-Score'' \<in> set (columns filtered)"
    unfolding cols sf by (simp add: scored_frame_def add_column_def)
  have fne: "\<not> df_empty filtered" using nonempty d by (auto simp: df_empty_def)
  show ?thesis
    using assms fne d by (simp add: top_recommendations_def nsmallest_def)
qed

text \<open>
  Claim C5. The claim and the comment of line 250 put the filter before the scoring; the
  program scores first (lines 251 and 252) and filters at line 254. On a catalogue
  whose row of concern \<^verbatim>\<open>B1\<close> has a T-Score shorter than the P-Score, for the concern
  \<^verbatim>\<open>A\<close>: the program computes a D-Score for the \<^verbatim>\<open>B1\<close> row too, and its length check
  ends the whole recommendation with an exception, while the matcher of the claim
  (\<open>matcher_spec\<close>: filter, then score the remaining rows, then select) recommends the
  row \<^verbatim>\<open>t1\<close>.
\<close>

theorem matcher_scores_rows_outside_filter:
  "top_recommendations clinic_p_score (PStr ''A'') broken_catalog =
     Inl (ValueError ''p_score and t_score must have the same length.'') \<and>
   recommend_treatments (\<lambda>sheet. Inr broken_catalog) clinic_p_score survey_session =
     (Some (ValueError ''p_score and t_score must have the same length.''), survey_session) \<and>
   (case matcher_spec clinic_p_score (PStr ''A'') broken_catalog of
      Inr (Some chosen) \<Rightarrow>
        map (\<lambda>r. r ''Treatment Brand/Name'') (rows chosen) = [PStr ''t1''] \<and>
        map (\<lambda>r. r ''D-Score'') (rows chosen) = [PInt 1]
    | _ \<Rightarrow> False)"
proof -
  have code: "top_recommendations clinic_p_score (PStr ''A'') broken_catalog =
     Inl (ValueError ''p_score and t_score must have the same length.'')"
    by (simp add: top_recommendations_def score_catalog_def broken_catalog_def clinic_p_score_def
        catalog_columns_def coded_cells convert_examples calculate_d_score_def
        d_safe_int_conversion_def)
  have ld: "load_data (\<lambda>sheet. Inr broken_catalog) sheet survey_session =
            (broken_catalog, survey_session)" for sheet
    by (simp add: load_data_def)
  have ne: "\<not> df_empty broken_catalog"
    by (simp add: df_empty_def broken_catalog_def catalog_columns_def)
  have m: "responses survey_session ''Delivery Mode'' = Some (PInt 1)"
    by (simp add: survey_session_def)
  have p: "clinic_p_score = PStr ''A'' # [PInt 3, PInt 1, PInt 1, PInt 1, PInt 1]"
    by (simp add: clinic_p_score_def)
  have rec: "recommend_treatments (\<lambda>sheet. Inr broken_catalog) clinic_p_score survey_session =
     (Some (ValueError ''p_score and t_score must have the same length.''), survey_session)"
    unfolding recommend_treatments_def Let_def ld
    using m ne code by (simp add: p truthy_def)
  have f: "filter_treatments broken_catalog (PStr ''A'') =
        Inr (broken_catalog\<lparr>rows := [coded ''t1'' ''A1'' ''['A1', 2, 1, 1, 1, 1]'']\<rparr>)"
    by (simp add: filter_treatments_def select_startswith_def dropna_def df_empty_def
        broken_catalog_def catalog_columns_def coded_cells is_str_simps py_strip_def
        py_isspace_def py_startswith_def)
  have spec: "case matcher_spec clinic_p_score (PStr ''A'') broken_catalog of
      Inr (Some chosen) \<Rightarrow>
        map (\<lambda>r. r ''Treatment Brand/Name'') (rows chosen) = [PStr ''t1''] \<and>
        map (\<lambda>r. r ''D-Score'') (rows chosen) = [PInt 1]
    | _ \<Rightarrow> False"
    unfolding matcher_spec_def f
    by (simp add: score_catalog_def broken_catalog_def clinic_p_score_def
        catalog_columns_def coded_cells convert_examples calculate_d_score_def
        d_safe_int_conversion_def nsmallest_def add_column_def column_numeric_def
        numeric_ints_def is_int_def int_of_def)
  from code rec spec show ?thesis by (intro conjI)
qed

section \<open>Properties of a submission\<close>


text \<open>
  The branch of line 255 is never taken: a table that \<open>filter_treatments\<close> returns has
  rows. An empty result of the filter reaches the caller as the exception of line 193.
\<close>

lemma top_recommendations_not_empty: "top_recommendations p c data \<noteq> Inr None"
proof
  assume a: "top_recommendations p c data = Inr None"
  then obtain scored filtered where "filter_treatments scored c = Inr filtered"
    and "df_empty filtered"
    by (auto simp: top_recommendations_def split: sum.splits if_splits)
  with filter_treatments_Inr [of scored c filtered] show False
    by (auto simp: df_empty_def filter_treatments_def split: if_splits)
qed



end
